theory Spec2Isabelle
  imports Main
begin

section \<open>The channel client of flashback: \<^verbatim>\<open>static/js/socket.js\<close>\<close>

text \<open>
  The file opens one socket.io connection when it is loaded and defines four functions,
  each of which builds an object literal and hands it to \<^verbatim>\<open>socket.emit\<close> under a fixed
  event name. The embedding keeps the source's names. Side effects are explicit: every
  function takes the world before the call and returns the completion of the call
  together with the world after it.
\<close>

subsection \<open>JavaScript values\<close>

text \<open>
  The arguments are never inspected by the code, so any JavaScript value can be passed.
  The type parameter \<open>'n\<close> is the representation of numbers; nothing below computes with
  them. An object is the list of its own properties in creation order, as an object
  literal produces them.
\<close>

datatype 'n jsval =
    JUndefined
  | JNull
  | JBool bool
  | JNum 'n
  | JStr string
  | JArr "'n jsval list"
  | JObj "(string \<times> 'n jsval) list"
  | JSocket nat

text \<open>A call either returns a value or throws one.\<close>

datatype 'n completion = Normal "'n jsval" | Throw "'n jsval"

text \<open>Reading the properties of a value: \<^verbatim>\<open>Object.keys(o)\<close> and \<^verbatim>\<open>o[k]\<close>.\<close>

fun own_keys :: "'n jsval \<Rightarrow> string list" where
  "own_keys (JObj fs) = map fst fs"
| "own_keys _ = []"

fun own_values :: "'n jsval \<Rightarrow> 'n jsval list" where
  "own_values (JObj fs) = map snd fs"
| "own_values _ = []"

fun get_prop :: "'n jsval \<Rightarrow> string \<Rightarrow> 'n jsval" where
  "get_prop (JObj fs) k = (case map_of fs k of Some v \<Rightarrow> v | None \<Rightarrow> JUndefined)"
| "get_prop _ k = JUndefined"

definition has_prop :: "'n jsval \<Rightarrow> string \<Rightarrow> bool" where
  "has_prop v k = (k \<in> set (own_keys v))"

subsection \<open>The transport\<close>

text \<open>
  What leaves the component is the sequence of \<^verbatim>\<open>emit\<close> calls: the connection used, the
  event name and the payload. The world records the number of connections opened so far
  and the messages handed to the transport, oldest first.
\<close>

record 'n message =
  conn :: nat
  event :: string
  payload :: "'n jsval"

record 'n world =
  created :: nat
  sent :: "'n message list"

text \<open>
  Modelled from the spec: the socket.io client library (\<^verbatim>\<open>io\<close> and \<^verbatim>\<open>socket.emit\<close>) is
  used by the source but is not part of it. \<^verbatim>\<open>io()\<close> establishes one new connection and
  returns its handle; handles are numbered in the order of creation.
\<close>

definition io :: "'n world \<Rightarrow> nat \<times> 'n world" where
  "io w = (created w, w\<lparr>created := Suc (created w)\<rparr>)"

text \<open>
  Modelled from the spec: \<^verbatim>\<open>socket.emit(name, payload)\<close> is a best-effort send. The
  payload is handed to the transport and the call returns at once; delivery and failures
  are the transport's concern and are not reported to the caller. socket.io returns the
  socket itself from \<^verbatim>\<open>emit\<close>.
\<close>

definition emit :: "nat \<Rightarrow> string \<Rightarrow> 'n jsval \<Rightarrow> 'n world \<Rightarrow> 'n completion \<times> 'n world" where
  "emit c name data w =
     (Normal (JSocket c), w\<lparr>sent := sent w @ [\<lparr>conn = c, event = name, payload = data\<rparr>]\<rparr>)"

subsection \<open>The module\<close>

text \<open>
  \<^verbatim>\<open>const socket = io();\<close> is the only statement executed when the script is loaded. The
  module scope holds the one binding it creates.
\<close>

record scope =
  socket :: nat

definition load :: "'n world \<Rightarrow> scope \<times> 'n world" where
  "load w = (case io w of (c, w') \<Rightarrow> (\<lparr>socket = c\<rparr>, w'))"

text \<open>
  The body of each function is a single expression statement. Its value is discarded and
  the function falls off its end, so the call returns \<^verbatim>\<open>undefined\<close>; there is no
  \<^verbatim>\<open>try\<close>, so a thrown value would pass through unchanged.
\<close>

definition expr_stmt :: "'n completion \<times> 'w \<Rightarrow> 'n completion \<times> 'w" where
  "expr_stmt r = (case r of (Throw e, w) \<Rightarrow> (Throw e, w) | (Normal v, w) \<Rightarrow> (Normal JUndefined, w))"

definition joinGame :: "scope \<Rightarrow> 'n jsval \<Rightarrow> 'n jsval \<Rightarrow> 'n world \<Rightarrow> 'n completion \<times> 'n world" where
  "joinGame m gameId playerName w =
     expr_stmt (emit (socket m) ''join''
       (JObj [(''game_id'', gameId), (''player'', playerName)]) w)"

definition sendAnswer ::
  "scope \<Rightarrow> 'n jsval \<Rightarrow> 'n jsval \<Rightarrow> 'n jsval \<Rightarrow> 'n world \<Rightarrow> 'n completion \<times> 'n world" where
  "sendAnswer m gameId playerName answer w =
     expr_stmt (emit (socket m) ''submit_answer''
       (JObj [(''game_id'', gameId), (''player'', playerName), (''answer'', answer)]) w)"

definition validateCorrectAnswers ::
  "scope \<Rightarrow> 'n jsval \<Rightarrow> 'n jsval \<Rightarrow> 'n world \<Rightarrow> 'n completion \<times> 'n world" where
  "validateCorrectAnswers m gameId correctPlayers w =
     expr_stmt (emit (socket m) ''validate_answers''
       (JObj [(''game_id'', gameId), (''correct_players'', correctPlayers)]) w)"

definition endGame :: "scope \<Rightarrow> 'n jsval \<Rightarrow> 'n world \<Rightarrow> 'n completion \<times> 'n world" where
  "endGame m gameId w =
     expr_stmt (emit (socket m) ''end_game'' (JObj [(''game_id'', gameId)]) w)"

subsection \<open>Callers\<close>

text \<open>
  A caller (a UI event handler) invokes one of the four functions with some arguments.
  A sequence of calls runs in order and stops at the first one that throws.
\<close>

datatype 'n call =
    JoinGame "'n jsval" "'n jsval"
  | SendAnswer "'n jsval" "'n jsval" "'n jsval"
  | ValidateCorrectAnswers "'n jsval" "'n jsval"
  | EndGame "'n jsval"

fun invoke :: "scope \<Rightarrow> 'n call \<Rightarrow> 'n world \<Rightarrow> 'n completion \<times> 'n world" where
  "invoke m (JoinGame gameId playerName) w = joinGame m gameId playerName w"
| "invoke m (SendAnswer gameId playerName answer) w = sendAnswer m gameId playerName answer w"
| "invoke m (ValidateCorrectAnswers gameId correctPlayers) w =
     validateCorrectAnswers m gameId correctPlayers w"
| "invoke m (EndGame gameId) w = endGame m gameId w"

fun invoke_all :: "scope \<Rightarrow> 'n call list \<Rightarrow> 'n world \<Rightarrow> 'n completion \<times> 'n world" where
  "invoke_all m [] w = (Normal JUndefined, w)"
| "invoke_all m (c # cs) w =
     (case invoke m c w of
        (Throw e, w') \<Rightarrow> (Throw e, w')
      | (Normal v, w') \<Rightarrow> invoke_all m cs w')"

text \<open>The arguments of a call, in the order they are passed, and the game id among them.\<close>

fun args :: "'n call \<Rightarrow> 'n jsval list" where
  "args (JoinGame gameId playerName) = [gameId, playerName]"
| "args (SendAnswer gameId playerName answer) = [gameId, playerName, answer]"
| "args (ValidateCorrectAnswers gameId correctPlayers) = [gameId, correctPlayers]"
| "args (EndGame gameId) = [gameId]"

fun gameId_of :: "'n call \<Rightarrow> 'n jsval" where
  "gameId_of (JoinGame gameId playerName) = gameId"
| "gameId_of (SendAnswer gameId playerName answer) = gameId"
| "gameId_of (ValidateCorrectAnswers gameId correctPlayers) = gameId"
| "gameId_of (EndGame gameId) = gameId"

fun is_throw :: "'n completion \<Rightarrow> bool" where
  "is_throw (Throw e) = True"
| "is_throw (Normal v) = False"

text \<open>The messages a computation adds to the ones already sent.\<close>

definition emitted :: "('n world \<Rightarrow> 'n completion \<times> 'n world) \<Rightarrow> 'n world \<Rightarrow> 'n message list" where
  "emitted f w = drop (length (sent w)) (sent (snd (f w)))"

section \<open>Properties\<close>

subsection \<open>What each function does to the world\<close>

lemma joinGame_run:
  "joinGame m gameId playerName w =
     (Normal JUndefined,
      w\<lparr>sent := sent w @ [\<lparr>conn = socket m, event = ''join'',
          payload = JObj [(''game_id'', gameId), (''player'', playerName)]\<rparr>]\<rparr>)"
  by (simp add: joinGame_def emit_def expr_stmt_def)

lemma sendAnswer_run:
  "sendAnswer m gameId playerName answer w =
     (Normal JUndefined,
      w\<lparr>sent := sent w @ [\<lparr>conn = socket m, event = ''submit_answer'',
          payload = JObj [(''game_id'', gameId), (''player'', playerName), (''answer'', answer)]\<rparr>]\<rparr>)"
  by (simp add: sendAnswer_def emit_def expr_stmt_def)

lemma validateCorrectAnswers_run:
  "validateCorrectAnswers m gameId correctPlayers w =
     (Normal JUndefined,
      w\<lparr>sent := sent w @ [\<lparr>conn = socket m, event = ''validate_answers'',
          payload = JObj [(''game_id'', gameId), (''correct_players'', correctPlayers)]\<rparr>]\<rparr>)"
  by (simp add: validateCorrectAnswers_def emit_def expr_stmt_def)

lemma endGame_run:
  "endGame m gameId w =
     (Normal JUndefined,
      w\<lparr>sent := sent w @ [\<lparr>conn = socket m, event = ''end_game'',
          payload = JObj [(''game_id'', gameId)]\<rparr>]\<rparr>)"
  by (simp add: endGame_def emit_def expr_stmt_def)

lemmas run_simps = joinGame_run sendAnswer_run validateCorrectAnswers_run endGame_run

lemma invoke_normal: "fst (invoke m c w) = Normal JUndefined"
  by (cases c) (simp_all add: run_simps)

lemma invoke_appends_last:
  "snd (invoke m c w) = w\<lparr>sent := sent w @ [last (sent (snd (invoke m c w)))]\<rparr>
   \<and> conn (last (sent (snd (invoke m c w)))) = socket m"
  by (cases c) (simp_all add: run_simps)

lemma invoke_appends_one:
  "\<exists>x. snd (invoke m c w) = w\<lparr>sent := sent w @ [x]\<rparr> \<and> conn x = socket m"
  using invoke_appends_last by blast

lemma invoke_all_appends:
  "\<exists>xs. invoke_all m cs w = (Normal JUndefined, w\<lparr>sent := sent w @ xs\<rparr>)
        \<and> map conn xs = replicate (length cs) (socket m)"
proof (induction cs arbitrary: w)
  case Nil
  show ?case by simp
next
  case (Cons c cs)
  obtain x where x: "snd (invoke m c w) = w\<lparr>sent := sent w @ [x]\<rparr>" "conn x = socket m"
    using invoke_appends_one by blast
  let ?w1 = "w\<lparr>sent := sent w @ [x]\<rparr>"
  have step: "invoke m c w = (Normal JUndefined, ?w1)"
    using x(1) invoke_normal [of m c w] by (simp add: prod_eq_iff)
  obtain xs where xs: "invoke_all m cs ?w1 = (Normal JUndefined, ?w1\<lparr>sent := sent ?w1 @ xs\<rparr>)"
      "map conn xs = replicate (length cs) (socket m)"
    using Cons.IH by blast
  have "invoke_all m (c # cs) w = (Normal JUndefined, w\<lparr>sent := sent w @ (x # xs)\<rparr>)"
    using step xs(1) by simp
  moreover have "map conn (x # xs) = replicate (length (c # cs)) (socket m)"
    using x(2) xs(2) by simp
  ultimately show ?case by blast
qed

subsection \<open>joinGame\<close>

text \<open>
  C1. For every pair of arguments, \<open>joinGame\<close> hands exactly one message to the transport:
  the messages sent after the call are the ones sent before it followed by a single
  \<^verbatim>\<open>join\<close> message whose payload has the two properties \<^verbatim>\<open>game_id\<close> and \<^verbatim>\<open>player\<close>, holding
  the two arguments. Nothing else is emitted and no connection is opened.
\<close>

theorem joinGame_emits_join:
  "sent (snd (joinGame m gameId playerName w)) =
     sent w @ [\<lparr>conn = socket m, event = ''join'',
                payload = JObj [(''game_id'', gameId), (''player'', playerName)]\<rparr>]
   \<and> emitted (joinGame m gameId playerName) w =
     [\<lparr>conn = socket m, event = ''join'',
       payload = JObj [(''game_id'', gameId), (''player'', playerName)]\<rparr>]
   \<and> created (snd (joinGame m gameId playerName w)) = created w"
  by (simp add: joinGame_run emitted_def)

theorem joinGame_scenario:
  "emitted (joinGame \<lparr>socket = 0\<rparr> (JStr ''ABCD'') (JStr ''Alice''))
     (\<lparr>created = 1, sent = []\<rparr> :: int world) =
   [\<lparr>conn = 0, event = ''join'',
     payload = JObj [(''game_id'', JStr ''ABCD''), (''player'', JStr ''Alice'')]\<rparr>]"
  using joinGame_emits_join [of "\<lparr>socket = 0\<rparr>" "JStr ''ABCD''" "JStr ''Alice''"
      "\<lparr>created = 1, sent = []\<rparr> :: int world"]
  by simp

subsection \<open>sendAnswer\<close>

text \<open>
  C2. For every triple of arguments, \<open>sendAnswer\<close> hands exactly one message to the
  transport, a \<^verbatim>\<open>submit_answer\<close> message whose payload has the properties \<^verbatim>\<open>game_id\<close>,
  \<^verbatim>\<open>player\<close> and \<^verbatim>\<open>answer\<close> holding the three arguments; reading \<^verbatim>\<open>answer\<close> back from the
  emitted payload gives the argument itself, whatever value it is.
\<close>

theorem sendAnswer_emits_submit_answer:
  "sent (snd (sendAnswer m gameId playerName answer w)) =
     sent w @ [\<lparr>conn = socket m, event = ''submit_answer'',
                payload = JObj [(''game_id'', gameId), (''player'', playerName),
                                (''answer'', answer)]\<rparr>]
   \<and> emitted (sendAnswer m gameId playerName answer) w =
     [\<lparr>conn = socket m, event = ''submit_answer'',
       payload = JObj [(''game_id'', gameId), (''player'', playerName),
                       (''answer'', answer)]\<rparr>]
   \<and> map (\<lambda>x. get_prop (payload x) ''answer'') (emitted (sendAnswer m gameId playerName answer) w) =
     [answer]
   \<and> created (snd (sendAnswer m gameId playerName answer w)) = created w"
  by (simp add: sendAnswer_run emitted_def)

theorem sendAnswer_scenario:
  "emitted (sendAnswer \<lparr>socket = 0\<rparr> (JStr ''ABCD'') (JStr ''Alice'') (JNum 42))
     (\<lparr>created = 1, sent = []\<rparr> :: int world) =
   [\<lparr>conn = 0, event = ''submit_answer'',
     payload = JObj [(''game_id'', JStr ''ABCD''), (''player'', JStr ''Alice''),
                     (''answer'', JNum 42)]\<rparr>]"
  using sendAnswer_emits_submit_answer [of "\<lparr>socket = 0\<rparr>" "JStr ''ABCD''" "JStr ''Alice''"
      "JNum 42" "\<lparr>created = 1, sent = []\<rparr> :: int world"]
  by simp

subsection \<open>validateCorrectAnswers\<close>

text \<open>
  C3. For every pair of arguments, \<open>validateCorrectAnswers\<close> hands exactly one message to
  the transport, a \<^verbatim>\<open>validate_answers\<close> message whose payload has the properties
  \<^verbatim>\<open>game_id\<close> and \<^verbatim>\<open>correct_players\<close> holding the two arguments. The collection is passed
  on as it is: when it is an array, the payload holds an array of the same elements in
  the same order.
\<close>

theorem validateCorrectAnswers_emits_validate_answers:
  "sent (snd (validateCorrectAnswers m gameId correctPlayers w)) =
     sent w @ [\<lparr>conn = socket m, event = ''validate_answers'',
                payload = JObj [(''game_id'', gameId), (''correct_players'', correctPlayers)]\<rparr>]
   \<and> emitted (validateCorrectAnswers m gameId correctPlayers) w =
     [\<lparr>conn = socket m, event = ''validate_answers'',
       payload = JObj [(''game_id'', gameId), (''correct_players'', correctPlayers)]\<rparr>]
   \<and> map (\<lambda>x. get_prop (payload x) ''correct_players'')
         (emitted (validateCorrectAnswers m gameId correctPlayers) w) = [correctPlayers]
   \<and> map (\<lambda>x. get_prop (payload x) ''correct_players'')
         (emitted (validateCorrectAnswers m gameId (JArr players)) w) = [JArr players]
   \<and> created (snd (validateCorrectAnswers m gameId correctPlayers w)) = created w"
  by (simp add: validateCorrectAnswers_run emitted_def)

theorem validateCorrectAnswers_scenario:
  "emitted (validateCorrectAnswers \<lparr>socket = 0\<rparr> (JStr ''ABCD'')
       (JArr [JStr ''Alice'', JStr ''Bob'']))
     (\<lparr>created = 1, sent = []\<rparr> :: int world) =
   [\<lparr>conn = 0, event = ''validate_answers'',
     payload = JObj [(''game_id'', JStr ''ABCD''),
                     (''correct_players'', JArr [JStr ''Alice'', JStr ''Bob''])]\<rparr>]"
  using validateCorrectAnswers_emits_validate_answers [of "\<lparr>socket = 0\<rparr>" "JStr ''ABCD''"
      "JArr [JStr ''Alice'', JStr ''Bob'']" "\<lparr>created = 1, sent = []\<rparr> :: int world"]
  by simp

subsection \<open>endGame\<close>

text \<open>
  C4. For every game id, \<open>endGame\<close> hands exactly one message to the transport, an
  \<^verbatim>\<open>end_game\<close> message whose payload has the single property \<^verbatim>\<open>game_id\<close>, holding the
  argument, and no other property.
\<close>

theorem endGame_emits_end_game:
  "sent (snd (endGame m gameId w)) =
     sent w @ [\<lparr>conn = socket m, event = ''end_game'', payload = JObj [(''game_id'', gameId)]\<rparr>]
   \<and> emitted (endGame m gameId) w =
     [\<lparr>conn = socket m, event = ''end_game'', payload = JObj [(''game_id'', gameId)]\<rparr>]
   \<and> map (\<lambda>x. own_keys (payload x)) (emitted (endGame m gameId) w) = [[''game_id'']]
   \<and> created (snd (endGame m gameId w)) = created w"
  by (simp add: endGame_run emitted_def)

theorem endGame_scenario:
  "emitted (endGame \<lparr>socket = 0\<rparr> (JStr ''ABCD'')) (\<lparr>created = 1, sent = []\<rparr> :: int world) =
   [\<lparr>conn = 0, event = ''end_game'', payload = JObj [(''game_id'', JStr ''ABCD'')]\<rparr>]"
  using endGame_emits_end_game [of "\<lparr>socket = 0\<rparr>" "JStr ''ABCD''"
      "\<lparr>created = 1, sent = []\<rparr> :: int world"]
  by simp

subsection \<open>All four functions\<close>

text \<open>
  C5. Whichever of the four functions is called, and with whatever arguments, every
  message the call emits (there is exactly one) has a \<^verbatim>\<open>game_id\<close> property in its payload,
  and the value of that property is the \<open>gameId\<close> argument of the call.
\<close>

theorem game_id_on_every_message:
  "map (\<lambda>x. has_prop (payload x) ''game_id'') (emitted (invoke m c) w) = [True]
   \<and> map (\<lambda>x. get_prop (payload x) ''game_id'') (emitted (invoke m c) w) = [gameId_of c]"
  by (cases c) (simp_all add: run_simps emitted_def has_prop_def)

text \<open>
  C6. No function looks at its arguments. For every call, the empty string included, the
  call completes normally, and the values of the payload's properties are the arguments of
  the call, unchanged and in the order they were passed. The function body itself never
  throws: it throws exactly when the send it wraps does, and leaves the world as the send
  left it.
\<close>

theorem no_validation_no_error:
  "\<not> is_throw (fst (invoke m c w))
   \<and> map (\<lambda>x. own_values (payload x)) (emitted (invoke m c) w) = [args c]
   \<and> is_throw (fst (expr_stmt r)) = is_throw (fst r)
   \<and> snd (expr_stmt r) = snd r"
proof -
  have body: "is_throw (fst (expr_stmt r)) = is_throw (fst r) \<and> snd (expr_stmt r) = snd r"
    by (cases r; cases "fst r") (simp_all add: expr_stmt_def)
  have call: "\<not> is_throw (fst (invoke m c w))
      \<and> map (\<lambda>x. own_values (payload x)) (emitted (invoke m c) w) = [args c]"
    by (cases c) (simp_all add: run_simps emitted_def)
  from body call show ?thesis by simp
qed

theorem no_validation_empty_string:
  "\<not> is_throw (fst (invoke \<lparr>socket = 0\<rparr> (JoinGame (JStr []) (JStr []))
        (\<lparr>created = 1, sent = []\<rparr> :: int world)))
   \<and> emitted (invoke \<lparr>socket = 0\<rparr> (JoinGame (JStr []) (JStr [])))
        (\<lparr>created = 1, sent = []\<rparr> :: int world) =
     [\<lparr>conn = 0, event = ''join'',
       payload = JObj [(''game_id'', JStr []), (''player'', JStr [])]\<rparr>]"
  using no_validation_no_error [of "\<lparr>socket = 0\<rparr>" "JoinGame (JStr []) (JStr [])"
      "\<lparr>created = 1, sent = []\<rparr> :: int world"]
  by (simp add: run_simps emitted_def)

text \<open>
  C7. Nothing is deduplicated. Calling the same function twice in a row with the same
  arguments leaves the earlier messages in place and adds two messages, each the message
  a single call emits.
\<close>

theorem no_deduplication:
  "sent (snd (invoke m c (snd (invoke m c w)))) =
     sent w @ emitted (invoke m c) w @ emitted (invoke m c) w
   \<and> snd (invoke_all m [c, c] w) = snd (invoke m c (snd (invoke m c w)))
   \<and> length (emitted (invoke_all m [c, c]) w) = 2"
  by (cases c) (simp_all add: run_simps emitted_def)

text \<open>
  C8. Every call to one of the four functions returns \<^verbatim>\<open>undefined\<close>: the caller gets no
  result value, in particular not the socket that \<^verbatim>\<open>emit\<close> returns.
\<close>

theorem returns_undefined:
  "fst (joinGame m gameId playerName w) = Normal JUndefined
   \<and> fst (sendAnswer m gameId playerName answer w) = Normal JUndefined
   \<and> fst (validateCorrectAnswers m gameId correctPlayers w) = Normal JUndefined
   \<and> fst (endGame m gameId w) = Normal JUndefined"
  by (simp add: run_simps)

text \<open>
  C9. Loading the module opens exactly one connection and sends nothing, and \<open>socket\<close> is
  bound to that connection. Any sequence of calls to the four functions, made in any later
  world, opens no connection; the only change to the world is that one message per call
  is appended to the messages sent, and each of them goes over the connection opened at
  load time.
\<close>

theorem one_connection:
  "created (snd (load w0)) = Suc (created w0)
   \<and> sent (snd (load w0)) = sent w0
   \<and> socket (fst (load w0)) = created w0
   \<and> snd (invoke_all (fst (load w0)) cs w) =
       w\<lparr>sent := sent w @ emitted (invoke_all (fst (load w0)) cs) w\<rparr>
   \<and> created (snd (invoke_all (fst (load w0)) cs w)) = created w
   \<and> map conn (emitted (invoke_all (fst (load w0)) cs) w) = replicate (length cs) (created w0)"
proof -
  let ?m = "fst (load w0) :: scope"
  have ld: "load w0 = (\<lparr>socket = created w0\<rparr>, w0\<lparr>created := Suc (created w0)\<rparr>)"
    by (simp add: load_def io_def)
  obtain xs where xs: "invoke_all ?m cs w = (Normal JUndefined, w\<lparr>sent := sent w @ xs\<rparr>)"
      "map conn xs = replicate (length cs) (socket ?m)"
    using invoke_all_appends by blast
  have em: "emitted (invoke_all ?m cs) w = xs"
    using xs(1) by (simp add: emitted_def)
  show ?thesis
    using xs em by (simp add: ld)
qed

text \<open>
  C10. What a call emits and returns is determined by the function and its arguments
  alone: the same call made in two different worlds emits the same messages and completes
  in the same way. The event name is fixed per function and is the same for all
  arguments.
\<close>

theorem deterministic_emission:
  "emitted (invoke m c) w1 = emitted (invoke m c) w2
   \<and> fst (invoke m c w1) = fst (invoke m c w2)
   \<and> map event (emitted (joinGame m gameId playerName) w) = [''join'']
   \<and> map event (emitted (sendAnswer m gameId playerName answer) w) = [''submit_answer'']
   \<and> map event (emitted (validateCorrectAnswers m gameId correctPlayers) w) = [''validate_answers'']
   \<and> map event (emitted (endGame m gameId) w) = [''end_game'']"
  by (cases c) (simp_all add: run_simps emitted_def)

end
